theory Spec2Isabelle
  imports Complex_Main "HOL-Library.Word" "HOL-Library.Log_Nat"
begin

section \<open>Shopify webhook intake and promotion translation: the embedding\<close>

text \<open>
  A Python \<open>str\<close> is modelled as an Isabelle \<open>string\<close>, one \<open>char\<close> per code point
  (the model covers code points below 256); \<open>bytes\<close> is a list of 8-bit words.
\<close>

subsection \<open>Global identifiers (utils.py, services/promotion\_sync.py)\<close>

text \<open>
  An identifier is what the code formats into a URL or a GID with an f-string, that is
  with \<open>str()\<close>: an int (REST payloads), a str (GraphQL identifiers), or \<open>None\<close>
  (a product listed without an \<open>id\<close>).
\<close>

datatype ident = IdInt int | IdStr string | IdNone

definition digit_char :: "nat \<Rightarrow> char" where
  "digit_char d = char_of (48 + d)"

function str_nat :: "nat \<Rightarrow> string" where
  "str_nat n = (if n < 10 then [digit_char n] else str_nat (n div 10) @ [digit_char (n mod 10)])"
  by pat_completeness auto
termination
  by (relation "measure id") auto

definition str_int :: "int \<Rightarrow> string" where
  "str_int i = (if i < 0 then CHR ''-'' # str_nat (nat (- i)) else str_nat (nat i))"

fun py_str :: "ident \<Rightarrow> string" where
  "py_str (IdInt i) = str_int i"
| "py_str (IdStr s) = s"
| "py_str IdNone = ''None''"

definition to_shopify_gid :: "ident \<Rightarrow> ident \<Rightarrow> string" where
  "to_shopify_gid resource_type numeric_id =
     ''gid://shopify/'' @ py_str resource_type @ ''/'' @ py_str numeric_id"

text \<open>\<open>s.split(sep)\<close> for a one-character separator: never the empty list.\<close>

fun py_split :: "char \<Rightarrow> string \<Rightarrow> string list" where
  "py_split sep [] = [[]]"
| "py_split sep (c # cs) =
     (if c = sep then [] # py_split sep cs
      else (case py_split sep cs of
              [] \<Rightarrow> [[c]]
            | p # ps \<Rightarrow> (c # p) # ps))"

definition extract_id :: "string \<Rightarrow> string" where
  "extract_id gid_string = (let parts = py_split CHR ''/'' gid_string in last parts)"


subsection \<open>Errors and outcomes\<close>

text \<open>
  Every \<open>raise\<close> of the source is a value. \<open>Exception_msg\<close> is a plain
  \<open>Exception\<close> raised by the code itself; it carries the fixed part of the message.
\<close>

datatype py_error =
    KeyError
  | ValueError
  | TypeError
  | AttributeError
  | OverflowError
  | ZeroDivisionError
  | InvalidOperation
  | DecimalOverflow
  | Exception_msg string

definition bind_e :: "py_error + 'a \<Rightarrow> ('a \<Rightarrow> py_error + 'b) \<Rightarrow> py_error + 'b" where
  "bind_e r f = (case r of Inl e \<Rightarrow> Inl e | Inr x \<Rightarrow> f x)"

subsection \<open>The active window (services/promotion\_sync.py)\<close>

text \<open>
  An aware \<open>datetime\<close>: the local calendar fields and the UTC offset in seconds.
\<close>

record datetime =
  dt_year :: nat
  dt_month :: nat
  dt_day :: nat
  dt_hour :: nat
  dt_minute :: nat
  dt_second :: nat
  dt_utcoffset :: int

definition is_digit :: "char \<Rightarrow> bool" where
  "is_digit c = (48 \<le> (of_char c :: nat) \<and> (of_char c :: nat) \<le> 57)"

definition digits_value :: "string \<Rightarrow> nat option" where
  "digits_value s =
     (if s \<noteq> [] \<and> list_all is_digit s
      then Some (foldl (\<lambda>a c. 10 * a + (of_char c - 48)) 0 s)
      else None)"

definition is_leap :: "nat \<Rightarrow> bool" where
  "is_leap y = (y mod 4 = 0 \<and> (y mod 100 \<noteq> 0 \<or> y mod 400 = 0))"

definition days_in_month :: "nat \<Rightarrow> nat \<Rightarrow> nat" where
  "days_in_month y m =
     (if m = 2 then (if is_leap y then 29 else 28)
      else if m = 4 \<or> m = 6 \<or> m = 9 \<or> m = 11 then 30
      else 31)"

text \<open>The \<open>%z\<close> directive: \<open>+HH:MM\<close>, \<open>+HHMM\<close> or \<open>Z\<close>; an offset is under 24 hours.\<close>

definition parse_offset :: "string \<Rightarrow> int option" where
  "parse_offset z =
     (if z = ''Z'' then Some 0
      else if (length z = 6 \<and> z ! 3 = CHR '':'') \<or> length z = 5 then
        (let sg = hd z;
             hh = digits_value (take 2 (tl z));
             mm = digits_value (drop (length z - 2) z)
         in case (hh, mm) of
              (Some h, Some m) \<Rightarrow>
                (if (sg = CHR ''+'' \<or> sg = CHR ''-'') \<and> h < 24 \<and> m < 60
                 then Some ((if sg = CHR ''-'' then - 1 else 1) * (int h * 3600 + int m * 60))
                 else None)
            | _ \<Rightarrow> None)
      else None)"

text \<open>
  \<open>datetime.strptime(s, "%Y-%m-%dT%H:%M:%S%z")\<close> on the spelling the platform emits:
  zero-padded fields, as in \<open>2050-01-01T16:39:39+10:00\<close>. A string that does not
  match, or names no valid date and time, raises \<open>ValueError\<close>. The laxer spellings
  that \<open>strptime\<close> also accepts (one-digit fields, offsets with seconds) are not
  covered by the model, which rejects them.
\<close>

definition py_strptime :: "string \<Rightarrow> py_error + datetime" where
  "py_strptime s =
     (if length s < 20 \<or> s ! 4 \<noteq> CHR ''-'' \<or> s ! 7 \<noteq> CHR ''-'' \<or> s ! 10 \<noteq> CHR ''T''
         \<or> s ! 13 \<noteq> CHR '':'' \<or> s ! 16 \<noteq> CHR '':''
      then Inl ValueError
      else
        (case (digits_value (take 4 s), digits_value (take 2 (drop 5 s)),
               digits_value (take 2 (drop 8 s)), digits_value (take 2 (drop 11 s)),
               digits_value (take 2 (drop 14 s)), digits_value (take 2 (drop 17 s)),
               parse_offset (drop 19 s)) of
           (Some y, Some m, Some d, Some hh, Some mi, Some ss, Some off) \<Rightarrow>
             (if 1 \<le> y \<and> 1 \<le> m \<and> m \<le> 12 \<and> 1 \<le> d \<and> d \<le> days_in_month y m
                 \<and> hh < 24 \<and> mi < 60 \<and> ss < 60
              then Inr \<lparr>dt_year = y, dt_month = m, dt_day = d, dt_hour = hh,
                        dt_minute = mi, dt_second = ss, dt_utcoffset = off\<rparr>
              else Inl ValueError)
         | _ \<Rightarrow> Inl ValueError))"


text \<open>\<open>date_time + datetime.timedelta(days=1)\<close>; past year 9999 it raises.\<close>

definition add_one_day :: "datetime \<Rightarrow> py_error + datetime" where
  "add_one_day t =
     (if dt_day t < days_in_month (dt_year t) (dt_month t) then
        Inr (t\<lparr>dt_day := dt_day t + 1\<rparr>)
      else if dt_month t < 12 then
        Inr (t\<lparr>dt_month := dt_month t + 1, dt_day := 1\<rparr>)
      else if dt_year t < 9999 then
        Inr (t\<lparr>dt_year := dt_year t + 1, dt_month := 1, dt_day := 1\<rparr>)
      else Inl OverflowError)"

definition DEFAULT_END_DATE :: string where
  "DEFAULT_END_DATE = ''2050-01-01T16:39:39+10:00''"

definition get_start_datetime :: "string \<Rightarrow> py_error + datetime" where
  "get_start_datetime start_date = py_strptime start_date"

definition get_end_datetime :: "string option \<Rightarrow> py_error + datetime" where
  "get_end_datetime end_date =
     (let end_date = (case end_date of None \<Rightarrow> DEFAULT_END_DATE | Some s \<Rightarrow> s)
      in bind_e (py_strptime end_date) (\<lambda>date_time. add_one_day date_time))"

text \<open>Comparison of aware datetimes is comparison of instants: seconds on the UTC line.\<close>

definition leap_years_before :: "nat \<Rightarrow> nat" where
  "leap_years_before y = (y - 1) div 4 - (y - 1) div 100 + (y - 1) div 400"

definition days_before_year :: "nat \<Rightarrow> nat" where
  "days_before_year y = 365 * (y - 1) + leap_years_before y"

definition days_before_month :: "nat \<Rightarrow> nat \<Rightarrow> nat" where
  "days_before_month y m = sum_list (map (days_in_month y) [1..<m])"

definition utc_seconds :: "datetime \<Rightarrow> int" where
  "utc_seconds t =
     int (days_before_year (dt_year t) + days_before_month (dt_year t) (dt_month t) + dt_day t)
       * 86400
     + int (dt_hour t) * 3600 + int (dt_minute t) * 60 + int (dt_second t) - dt_utcoffset t"

definition is_promotion_active :: "datetime \<Rightarrow> datetime \<Rightarrow> datetime \<Rightarrow> bool" where
  "is_promotion_active start_date end_date current_date =
     (utc_seconds start_date \<le> utc_seconds current_date
      \<and> utc_seconds current_date \<le> utc_seconds end_date)"

subsection \<open>Numbers: float and Decimal\<close>

text \<open>
  A \<open>float\<close> and a \<open>Decimal\<close> are modelled by their exact values, with the special
  values apart. Conversion to \<open>float\<close> rounds to the nearest binary64 value (53 bits,
  ties to even); \<open>Decimal\<close> division rounds to the 28 significant digits of the
  default context (ties to even). The sign of a zero and the exponent of a \<open>Decimal\<close>
  (its trailing zeros) are not represented.
\<close>

datatype pyfloat = FFinite rat | FInf bool | FNaN

datatype pydecimal = DFinite rat | DInf bool | DNaN | DSNaN

datatype pyval = PyNone | PyInt int | PyFloat pyfloat | PyDecimal pydecimal | PyStr string

text \<open>\<open>ilog b x\<close>, for \<open>x > 0\<close>: the exponent \<open>e\<close> with \<open>b^e \<le> x < b^(e+1)\<close>.\<close>

definition ilog :: "nat \<Rightarrow> rat \<Rightarrow> int" where
  "ilog b x =
     (let k = int (floorlog b (nat (fst (quotient_of x))))
            - int (floorlog b (nat (snd (quotient_of x))))
      in if of_nat b powi k \<le> x then k else k - 1)"

definition round_half_even :: "rat \<Rightarrow> int" where
  "round_half_even y =
     (let f = \<lfloor>y\<rfloor>; r = y - of_int f
      in if r < 1 / 2 then f else if 1 / 2 < r then f + 1 else if even f then f else f + 1)"

text \<open>
  Rounding to \<open>p\<close> significant digits in base \<open>b\<close>, the exponent of the last digit
  not below \<open>emin\<close>.
\<close>

definition round_to_prec :: "nat \<Rightarrow> nat \<Rightarrow> int \<Rightarrow> rat \<Rightarrow> rat" where
  "round_to_prec b p emin x =
     (if x = 0 then 0
      else
        (let q = max (ilog b \<bar>x\<bar> - int p + 1) emin;
             m = round_half_even (\<bar>x\<bar> / (of_nat b powi q))
         in sgn x * of_int m * (of_nat b powi q)))"

definition round_double :: "rat \<Rightarrow> pyfloat" where
  "round_double x =
     (let r = round_to_prec 2 53 (- 1074) x
      in if r \<noteq> 0 \<and> 1024 \<le> ilog 2 \<bar>r\<bar> then FInf (x < 0) else FFinite r)"

definition trunc_rat :: "rat \<Rightarrow> int" where
  "trunc_rat r = (if 0 \<le> r then \<lfloor>r\<rfloor> else \<lceil>r\<rceil>)"

subsubsection \<open>Numeric strings\<close>

text \<open>
  The literals \<open>float()\<close> and \<open>Decimal()\<close> read: surrounding whitespace, a sign,
  digits with an optional point and an optional exponent, or one of the spellings of
  infinity and NaN. Underscores between digits and digits outside ASCII, which Python
  also reads, are not covered by the model, which rejects them.
\<close>

definition is_space :: "char \<Rightarrow> bool" where
  "is_space c = ((of_char c :: nat) \<in> {9, 10, 11, 12, 13, 28, 29, 30, 31, 32, 133, 160})"

definition strip :: "string \<Rightarrow> string" where
  "strip s = rev (dropWhile is_space (rev (dropWhile is_space s)))"

definition to_lower :: "char \<Rightarrow> char" where
  "to_lower c =
     (if 65 \<le> (of_char c :: nat) \<and> (of_char c :: nat) \<le> 90 then char_of (of_char c + 32 :: nat)
      else c)"

definition digits_nat :: "string \<Rightarrow> nat" where
  "digits_nat s = foldl (\<lambda>a c. 10 * a + (of_char c - 48)) 0 s"

fun parse_sign :: "string \<Rightarrow> bool \<times> string" where
  "parse_sign [] = (False, [])"
| "parse_sign (c # cs) =
     (if c = CHR ''-'' then (True, cs) else if c = CHR ''+'' then (False, cs) else (False, c # cs))"

definition is_exp_char :: "char \<Rightarrow> bool" where
  "is_exp_char c = (c = CHR ''e'' \<or> c = CHR ''E'')"

definition parse_exponent :: "string \<Rightarrow> int option" where
  "parse_exponent s =
     (if s = [] then Some 0
      else
        (let (neg, ds) = parse_sign (tl s)
         in if ds \<noteq> [] \<and> list_all is_digit ds
            then Some (if neg then - int (digits_nat ds) else int (digits_nat ds))
            else None))"

definition parse_number :: "string \<Rightarrow> rat option" where
  "parse_number s =
     (let mant = takeWhile (\<lambda>c. \<not> is_exp_char c) s;
          ex = dropWhile (\<lambda>c. \<not> is_exp_char c) s;
          ip = takeWhile is_digit mant;
          after = dropWhile is_digit mant;
          fp = (if after = [] then [] else tl after)
      in if (after = [] \<or> hd after = CHR ''.'') \<and> list_all is_digit fp \<and> ip @ fp \<noteq> []
         then (case parse_exponent ex of
                 None \<Rightarrow> None
               | Some e \<Rightarrow> Some (of_nat (digits_nat (ip @ fp)) * (10 powi (e - int (length fp)))))
         else None)"

definition parse_float :: "string \<Rightarrow> pyfloat option" where
  "parse_float s =
     (let (neg, u) = parse_sign (strip s); l = map to_lower u
      in if l = ''inf'' \<or> l = ''infinity'' then Some (FInf neg)
         else if l = ''nan'' then Some FNaN
         else (case parse_number u of
                 None \<Rightarrow> None
               | Some r \<Rightarrow> Some (round_double (if neg then - r else r))))"

definition parse_decimal :: "string \<Rightarrow> pydecimal option" where
  "parse_decimal s =
     (let (neg, u) = parse_sign (strip s); l = map to_lower u
      in if l = ''inf'' \<or> l = ''infinity'' then Some (DInf neg)
         else if take 3 l = ''nan'' \<and> list_all is_digit (drop 3 l) then Some DNaN
         else if take 4 l = ''snan'' \<and> list_all is_digit (drop 4 l) then Some DSNaN
         else (case parse_number u of
                 None \<Rightarrow> None
               | Some r \<Rightarrow> Some (DFinite (if neg then - r else r))))"

subsubsection \<open>Conversions and arithmetic\<close>

fun py_float :: "pyval \<Rightarrow> py_error + pyfloat" where
  "py_float PyNone = Inl TypeError"
| "py_float (PyInt n) =
     (case round_double (of_int n) of FInf _ \<Rightarrow> Inl OverflowError | f \<Rightarrow> Inr f)"
| "py_float (PyFloat f) = Inr f"
| "py_float (PyDecimal (DFinite r)) = Inr (round_double r)"
| "py_float (PyDecimal (DInf neg)) = Inr (FInf neg)"
| "py_float (PyDecimal DNaN) = Inr FNaN"
| "py_float (PyDecimal DSNaN) = Inl ValueError"
| "py_float (PyStr s) = (case parse_float s of None \<Rightarrow> Inl ValueError | Some f \<Rightarrow> Inr f)"

fun int_of_float :: "pyfloat \<Rightarrow> py_error + int" where
  "int_of_float (FFinite r) = Inr (trunc_rat r)"
| "int_of_float (FInf _) = Inl OverflowError"
| "int_of_float FNaN = Inl ValueError"

fun abs_float :: "pyfloat \<Rightarrow> pyfloat" where
  "abs_float (FFinite r) = FFinite \<bar>r\<bar>"
| "abs_float (FInf _) = FInf False"
| "abs_float FNaN = FNaN"

fun py_decimal :: "pyval \<Rightarrow> py_error + pydecimal" where
  "py_decimal PyNone = Inl TypeError"
| "py_decimal (PyInt n) = Inr (DFinite (of_int n))"
| "py_decimal (PyFloat (FFinite r)) = Inr (DFinite r)"
| "py_decimal (PyFloat (FInf neg)) = Inr (DInf neg)"
| "py_decimal (PyFloat FNaN) = Inr DNaN"
| "py_decimal (PyDecimal d) = Inr d"
| "py_decimal (PyStr s) = (case parse_decimal s of None \<Rightarrow> Inl InvalidOperation | Some d \<Rightarrow> Inr d)"

text \<open>
  \<open>a / d\<close> for an int \<open>a \<noteq> 0\<close> in the default context: precision 28, exponents
  up to 999999, the traps for \<open>InvalidOperation\<close>, \<open>DivisionByZero\<close> (a
  \<open>ZeroDivisionError\<close>) and \<open>Overflow\<close> set.
\<close>

fun decimal_rdiv :: "int \<Rightarrow> pydecimal \<Rightarrow> py_error + pydecimal" where
  "decimal_rdiv a (DFinite r) =
     (if r = 0 then Inl ZeroDivisionError
      else
        (let v = round_to_prec 10 28 (- 1000026) (of_int a / r)
         in if v \<noteq> 0 \<and> 999999 < ilog 10 \<bar>v\<bar> then Inl DecimalOverflow else Inr (DFinite v)))"
| "decimal_rdiv a (DInf _) = Inr (DFinite 0)"
| "decimal_rdiv a DNaN = Inr DNaN"
| "decimal_rdiv a DSNaN = Inl InvalidOperation"

fun int_of_decimal :: "pydecimal \<Rightarrow> py_error + int" where
  "int_of_decimal (DFinite r) = Inr (trunc_rat r)"
| "int_of_decimal (DInf _) = Inl OverflowError"
| "int_of_decimal DNaN = Inl ValueError"
| "int_of_decimal DSNaN = Inl ValueError"

subsection \<open>Evaluation priority (services/promotion\_sync.py)\<close>

text \<open>
  The values of the \<open>DiscountType\<close> enumeration, which lives outside this repository,
  as the stub in \<open>tests/run_standalone_tests.py\<close> gives them.
\<close>

definition PERCENT_OFF :: string where "PERCENT_OFF = ''p''"
definition VALUE_OFF :: string where "VALUE_OFF = ''v''"

text \<open>The \<open>except (ZeroDivisionError, decimal.InvalidOperation)\<close> clause.\<close>

fun priority_except :: "py_error + int \<Rightarrow> py_error + int" where
  "priority_except (Inl ZeroDivisionError) = Inr 32767"
| "priority_except (Inl InvalidOperation) = Inr 32767"
| "priority_except r = r"

definition compute_evaluate_priority :: "string \<Rightarrow> pyval \<Rightarrow> py_error + int" where
  "compute_evaluate_priority discount_type discount_value =
     priority_except
       (if discount_type = PERCENT_OFF then
          bind_e (py_float discount_value) (\<lambda>f.
          bind_e (int_of_float f) (\<lambda>i. Inr (max 0 (100 - i))))
        else if discount_type = VALUE_OFF then
          bind_e (py_decimal discount_value) (\<lambda>d.
          bind_e (decimal_rdiv 10000 d) (\<lambda>q. int_of_decimal q))
        else
          bind_e (py_decimal discount_value) (\<lambda>d.
          bind_e (decimal_rdiv 10000 d) (\<lambda>q. int_of_decimal q)))"

subsection \<open>SKU resolution against the Admin API (services/promotion\_sync.py)\<close>

text \<open>
  The network is a script: the list of outcomes of the successive \<open>requests.get\<close>
  calls. A resolver reads one outcome per request. When the script ends while the work
  queue is not empty the call has not returned (\<open>Pending\<close>): a rate-limited identifier
  is retried without bound. Logging, the alert to the chat channel and \<open>time.sleep\<close>
  are not modelled.

  A response body is typed as the Admin API documents it. \<open>Malformed\<close> stands for
  every body on which \<open>response.json()\<close> or the traversal of the parsed value raises.
  A barcode is \<open>None\<close> (absent or null) or a string.
\<close>

type_synonym sku = "string option"

datatype body =
    Malformed
  | Product_json "sku list"
  | Variant_json sku
  | Collection_json "ident list"

datatype http_outcome = Response int body | Transport_error

datatype request = Get_product ident | Get_variant ident | Get_collection_products ident

datatype 'a run = Pending | Returned 'a | Raised py_error

record 'a exec =
  result :: "'a run"
  requested :: "request list"
  unread :: "http_outcome list"

definition sku_truthy :: "sku \<Rightarrow> bool" where
  "sku_truthy b = (case b of None \<Rightarrow> False | Some s \<Rightarrow> s \<noteq> [])"

text \<open>\<open>response.json().get("product").get("variants", [])\<close>, one barcode per variant.\<close>

fun product_variants :: "body \<Rightarrow> py_error + sku list" where
  "product_variants (Product_json barcodes) = Inr barcodes"
| "product_variants _ = Inl AttributeError"

fun variant_barcode :: "body \<Rightarrow> py_error + sku" where
  "variant_barcode (Variant_json barcode) = Inr barcode"
| "variant_barcode _ = Inl AttributeError"

fun collection_products :: "body \<Rightarrow> py_error + ident list" where
  "collection_products (Collection_json ids) = Inr ids"
| "collection_products _ = Inl AttributeError"

text \<open>
  The arguments of the loops are the script, the work queue, the SKUs collected so far
  and the requests made so far. \<open>pop(0)\<close> takes the head of the queue;
  \<open>insert(0, product_id)\<close> on status 429 puts it back.
\<close>

fun get_products_sku_loop ::
  "http_outcome list \<Rightarrow> ident list \<Rightarrow> sku list \<Rightarrow> request list \<Rightarrow> (sku list) exec" where
  "get_products_sku_loop net [] skus reqs =
     \<lparr>result = Returned skus, requested = reqs, unread = net\<rparr>"
| "get_products_sku_loop [] (product_id # product_ids) skus reqs =
     \<lparr>result = Pending, requested = reqs @ [Get_product product_id], unread = []\<rparr>"
| "get_products_sku_loop (Transport_error # net) (product_id # product_ids) skus reqs =
     \<lparr>result = Raised (Exception_msg
         ''error in standard shopify promotion import while fetching skus in products''),
      requested = reqs @ [Get_product product_id], unread = net\<rparr>"
| "get_products_sku_loop (Response status_code b # net) (product_id # product_ids) skus reqs =
     (if status_code = 429 then
        get_products_sku_loop net (product_id # product_ids) skus (reqs @ [Get_product product_id])
      else if status_code \<noteq> 200 then
        get_products_sku_loop net product_ids skus (reqs @ [Get_product product_id])
      else
        (case product_variants b of
           Inl e \<Rightarrow>
             \<lparr>result = Raised (Exception_msg
                 ''error in standard shopify promotion import while fetching skus in products''),
              requested = reqs @ [Get_product product_id], unread = net\<rparr>
         | Inr barcodes \<Rightarrow>
             get_products_sku_loop net product_ids (skus @ filter sku_truthy barcodes)
               (reqs @ [Get_product product_id])))"

definition get_products_sku :: "ident list \<Rightarrow> http_outcome list \<Rightarrow> (sku list) exec" where
  "get_products_sku product_ids net = get_products_sku_loop net product_ids [] []"

fun get_sku_from_variants_loop ::
  "http_outcome list \<Rightarrow> ident list \<Rightarrow> sku list \<Rightarrow> request list \<Rightarrow> (sku list) exec" where
  "get_sku_from_variants_loop net [] skus reqs =
     \<lparr>result = Returned skus, requested = reqs, unread = net\<rparr>"
| "get_sku_from_variants_loop [] (variant_id # variant_ids) skus reqs =
     \<lparr>result = Pending, requested = reqs @ [Get_variant variant_id], unread = []\<rparr>"
| "get_sku_from_variants_loop (Transport_error # net) (variant_id # variant_ids) skus reqs =
     \<lparr>result = Raised (Exception_msg
         ''error in standard shopify promotion import while fetching products in collection''),
      requested = reqs @ [Get_variant variant_id], unread = net\<rparr>"
| "get_sku_from_variants_loop (Response status_code b # net) (variant_id # variant_ids) skus reqs =
     (if status_code = 429 then
        get_sku_from_variants_loop net (variant_id # variant_ids) skus
          (reqs @ [Get_variant variant_id])
      else if status_code \<noteq> 200 then
        get_sku_from_variants_loop net variant_ids skus (reqs @ [Get_variant variant_id])
      else
        (case variant_barcode b of
           Inl e \<Rightarrow>
             \<lparr>result = Raised (Exception_msg
                 ''error in standard shopify promotion import while fetching products in collection''),
              requested = reqs @ [Get_variant variant_id], unread = net\<rparr>
         | Inr barcode \<Rightarrow>
             get_sku_from_variants_loop net variant_ids (skus @ [barcode])
               (reqs @ [Get_variant variant_id])))"

definition get_sku_from_variants :: "ident list \<Rightarrow> http_outcome list \<Rightarrow> (sku list) exec" where
  "get_sku_from_variants variant_ids net = get_sku_from_variants_loop net variant_ids [] []"

text \<open>
  The collection resolver shares one list, \<open>product_ids["product_id"]\<close>, with
  \<open>get_products_sku\<close>, which pops it empty before it returns; the list is therefore
  empty again at the head of every iteration, and the model passes it on as such.
  \<open>str(item_sku)\<close> is applied to each barcode copied into the result.
\<close>

fun sku_str :: "sku \<Rightarrow> sku" where
  "sku_str None = Some ''None''"
| "sku_str (Some s) = Some s"

lemma get_products_sku_loop_unread:
  "length (unread (get_products_sku_loop net product_ids skus reqs)) \<le> length net"
  by (induction net product_ids skus reqs rule: get_products_sku_loop.induct)
     (auto split: sum.splits)

function get_products_from_collections_loop ::
  "http_outcome list \<Rightarrow> ident list \<Rightarrow> sku list \<Rightarrow> ident list \<Rightarrow> request list
     \<Rightarrow> (sku list) exec" where
  "get_products_from_collections_loop net [] skus product_ids reqs =
     \<lparr>result = Returned skus, requested = reqs, unread = net\<rparr>"
| "get_products_from_collections_loop [] (collection_id # collection_ids) skus product_ids reqs =
     \<lparr>result = Pending, requested = reqs @ [Get_collection_products collection_id], unread = []\<rparr>"
| "get_products_from_collections_loop (Transport_error # net) (collection_id # collection_ids)
       skus product_ids reqs =
     \<lparr>result = Raised (Exception_msg
         ''error in standard shopify promotion import while fetching products in collection''),
      requested = reqs @ [Get_collection_products collection_id], unread = net\<rparr>"
| "get_products_from_collections_loop (Response status_code b # net)
       (collection_id # collection_ids) skus product_ids reqs =
     (if status_code = 429 then
        get_products_from_collections_loop net (collection_id # collection_ids) skus product_ids
          (reqs @ [Get_collection_products collection_id])
      else if status_code \<noteq> 200 then
        get_products_from_collections_loop net collection_ids skus product_ids
          (reqs @ [Get_collection_products collection_id])
      else
        (case collection_products b of
           Inl e \<Rightarrow>
             \<lparr>result = Raised (Exception_msg
                 ''error in standard shopify promotion import while fetching products in collection''),
              requested = reqs @ [Get_collection_products collection_id], unread = net\<rparr>
         | Inr ids \<Rightarrow>
             (let product_sku =
                    get_products_sku_loop net (product_ids @ ids) []
                      (reqs @ [Get_collection_products collection_id])
              in case result product_sku of
                   Pending \<Rightarrow>
                     \<lparr>result = Pending, requested = requested product_sku, unread = []\<rparr>
                 | Raised e \<Rightarrow>
                     \<lparr>result = Raised (Exception_msg
                         ''error in standard shopify promotion import while fetching products in collection''),
                      requested = requested product_sku, unread = unread product_sku\<rparr>
                 | Returned item_skus \<Rightarrow>
                     get_products_from_collections_loop (unread product_sku) collection_ids
                       (skus @ map sku_str item_skus) [] (requested product_sku))))"
  by pat_completeness auto
termination
  by (relation "measure (\<lambda>(net, collection_ids, skus, product_ids, reqs). length net)")
     (auto simp: get_products_sku_loop_unread le_imp_less_Suc)

definition get_products_from_collections ::
  "ident list \<Rightarrow> http_outcome list \<Rightarrow> (sku list) exec" where
  "get_products_from_collections collection_ids net =
     get_products_from_collections_loop net collection_ids [] [] []"

subsection \<open>Entitlement descriptors and their resolution\<close>

text \<open>
  A price rule of the REST format, with the fields typed as the Admin API documents them.
  For a field read with \<open>price_rule["key"]\<close>, \<open>None\<close> is the absent key, which raises
  \<open>KeyError\<close>; a field read with \<open>.get\<close> and tested for truth is its value, or the
  empty list or \<open>False\<close> when absent.
\<close>

record price_rule =
  pr_id :: "ident option"
  pr_target_type :: "string option"
  pr_target_selection :: "string option"
  pr_starts_at :: "string option"
  pr_ends_at :: "string option"
  pr_once_per_customer :: bool
  pr_allocation_method :: "string option"
  pr_title :: "string option"
  pr_value :: "pyval option"
  pr_value_type :: "string option"
  pr_entitled_product_ids :: "ident list"
  pr_entitled_variant_ids :: "ident list"
  pr_entitled_collection_ids :: "ident list"

definition raised :: "py_error \<Rightarrow> http_outcome list \<Rightarrow> 'a exec" where
  "raised e net = \<lparr>result = Raised e, requested = [], unread = net\<rparr>"

text \<open>The resolvers are given a copy, \<open>list(...)\<close>, of the rule's list.\<close>

definition resolve_entitled_skus :: "price_rule \<Rightarrow> http_outcome list \<Rightarrow> (sku list) exec" where
  "resolve_entitled_skus price_rule net =
     (if pr_entitled_product_ids price_rule \<noteq> [] then
        get_products_sku (pr_entitled_product_ids price_rule) net
      else if pr_entitled_variant_ids price_rule \<noteq> [] then
        get_sku_from_variants (pr_entitled_variant_ids price_rule) net
      else if pr_entitled_collection_ids price_rule \<noteq> [] then
        get_products_from_collections (pr_entitled_collection_ids price_rule) net
      else raised ValueError net)"

text \<open>
  The \<open>items\<close> block of the GraphQL format: for each of the three kinds the list of
  \<open>edges\<close>, each edge given by its \<open>node.id\<close>, a GID string; an absent or null kind
  is the empty list.
\<close>

record discount_items =
  di_collections :: "string list"
  di_products :: "string list"
  di_productVariants :: "string list"

definition resolve_skus_from_edges ::
  "discount_items \<Rightarrow> http_outcome list \<Rightarrow> (sku list) exec" where
  "resolve_skus_from_edges customer_data_items net =
     (let collections = di_collections customer_data_items;
          products = di_products customer_data_items;
          variants = di_productVariants customer_data_items
      in if collections \<noteq> [] then
           get_products_from_collections (map (\<lambda>c. IdStr (extract_id c)) collections) net
         else if products \<noteq> [] then
           get_products_sku (map (\<lambda>p. IdStr (extract_id p)) products) net
         else if variants \<noteq> [] then
           get_sku_from_variants (map (\<lambda>v. IdStr (extract_id v)) variants) net
         else raised (Exception_msg ''Promo: entitled/requisite items not found'') net)"

text \<open>The kind of a request, to tell which resolver made it.\<close>

fun is_product_request :: "request \<Rightarrow> bool" where
  "is_product_request (Get_product _) = True"
| "is_product_request _ = False"

fun is_variant_request :: "request \<Rightarrow> bool" where
  "is_variant_request (Get_variant _) = True"
| "is_variant_request _ = False"

fun is_collection_request :: "request \<Rightarrow> bool" where
  "is_collection_request (Get_collection_products _) = True"
| "is_collection_request _ = False"

subsection \<open>Promotions (services/promotion\_sync.py)\<close>

text \<open>
  The classes \<open>Promotion\<close>, \<open>Group\<close> and \<open>Node\<close> and the enumerations live outside
  this repository; the records hold the attributes the easy-family builders set, and an
  enumeration is the datatype of its members.
\<close>

datatype availability = Availability_ALL | Availability_SPECIAL
datatype discount_on = DiscountOn_FP | DiscountOn_MRP
datatype discount_type_strategy = ALL_ITEMS | EACH_ITEM
datatype selection_criteria = LEAST_EXPENSIVE | MOST_EXPENSIVE
datatype evaluate_criteria = PRIORITY
datatype node_type = ITEM

definition EASY :: string where "EASY = ''e''"
definition BASKET_THRESHOLD :: string where "BASKET_THRESHOLD = ''b''"

record node =
  node_type :: node_type
  node_id :: string

record group =
  group_name :: string
  qty_or_value_min :: int
  qty_or_value_max :: "int option"
  nodes :: "node list"

record promotion =
  retailer :: string
  stores :: "string list"
  promo_id :: string
  family :: string
  layer :: string
  date_start :: datetime
  date_end :: datetime
  promo_availability :: availability
  special_promo_info :: "(string \<times> string) option"
  discount_value_on :: discount_on
  max_application_limit :: nat
  promo_discount_type_strategy :: discount_type_strategy
  discounted_group_item_selection_criteria :: selection_criteria
  promo_evaluate_criteria :: evaluate_criteria
  is_active :: bool
  title :: string
  description :: string
  discount_type :: string
  discount_value :: pydecimal
  evaluate_priority :: int
  groups :: "group list"

record config =
  store_id :: string
  promo_retailer :: "string option"
  shopify_domain :: string
  api_version :: string
  api_access_token :: string

definition determine_family :: "price_rule \<Rightarrow> string option" where
  "determine_family price_rule =
     (if pr_target_type price_rule \<noteq> Some ''line_item'' then None
      else if pr_target_selection price_rule = Some ''all'' then Some BASKET_THRESHOLD
      else if pr_target_selection price_rule = Some ''entitled'' then Some EASY
      else None)"

text \<open>
  Modelled from the stub in \<open>tests/run_standalone_tests.py\<close>: \<open>get_rounded_value\<close>
  belongs to another package; the stub is \<open>round(value, decimals)\<close>, which for a
  \<open>Decimal\<close> quantizes to two places, ties to even, and raises when the result does
  not fit the 28 digits of the context.
\<close>

fun get_rounded_value :: "pydecimal \<Rightarrow> py_error + pydecimal" where
  "get_rounded_value (DFinite r) =
     (let q = round_half_even (r * 100)
      in if 10 ^ 28 \<le> \<bar>q\<bar> then Inl InvalidOperation else Inr (DFinite (of_int q / 100)))"
| "get_rounded_value (DInf _) = Inl InvalidOperation"
| "get_rounded_value DNaN = Inr DNaN"
| "get_rounded_value DSNaN = Inl InvalidOperation"

text \<open>The loop of \<open>build_promo_groups\<close>: an empty barcode is skipped.\<close>

fun sku_nodes :: "sku list \<Rightarrow> node list" where
  "sku_nodes [] = []"
| "sku_nodes (sku # skus) =
     (case sku of
        None \<Rightarrow> sku_nodes skus
      | Some s \<Rightarrow>
          (if s = [] then sku_nodes skus
           else \<lparr>node_type = ITEM, node_id = s\<rparr> # sku_nodes skus))"

definition build_promo_groups :: "ident \<Rightarrow> sku list \<Rightarrow> int \<Rightarrow> group list" where
  "build_promo_groups rule_id resolved_skus min_qty =
     [\<lparr>group_name = py_str rule_id, qty_or_value_min = min_qty, qty_or_value_max = None,
       nodes = sku_nodes resolved_skus\<rparr>]"

definition subscript :: "'a option \<Rightarrow> py_error + 'a" where
  "subscript field = (case field of None \<Rightarrow> Inl KeyError | Some v \<Rightarrow> Inr v)"

text \<open>
  The part of a builder before the SKUs are resolved: the window, the discount type and
  value, and the priority, in the order the source computes them.
\<close>

record discount_fields =
  df_type :: string
  df_value :: pydecimal
  df_priority :: int

definition webhook_discount :: "price_rule \<Rightarrow> py_error + discount_fields" where
  "webhook_discount price_rule =
     bind_e (subscript (pr_value price_rule)) (\<lambda>v.
     bind_e (py_float v) (\<lambda>f.
     bind_e (subscript (pr_value_type price_rule)) (\<lambda>value_type.
     bind_e (if value_type = ''percentage'' then Inr PERCENT_OFF
             else if value_type = ''fixed_amount'' then Inr VALUE_OFF
             else Inl ValueError) (\<lambda>dtype.
     bind_e (py_decimal (PyFloat (abs_float f))) (\<lambda>d.
     bind_e (get_rounded_value d) (\<lambda>dv.
     bind_e (compute_evaluate_priority dtype (PyDecimal dv)) (\<lambda>prio.
     Inr \<lparr>df_type = dtype, df_value = dv, df_priority = prio\<rparr>)))))))"

text \<open>\<open>current_date\<close> stands for \<open>datetime.now(timezone.utc)\<close>.\<close>

definition build_easy_promotion ::
  "price_rule \<Rightarrow> config \<Rightarrow> datetime \<Rightarrow> http_outcome list \<Rightarrow> promotion exec" where
  "build_easy_promotion price_rule cfg current_date net =
     (case
        bind_e (subscript (pr_id price_rule)) (\<lambda>rule_id.
        bind_e (subscript (pr_starts_at price_rule)) (\<lambda>starts_at.
        bind_e (get_start_datetime starts_at) (\<lambda>start.
        bind_e (get_end_datetime (pr_ends_at price_rule)) (\<lambda>end.
        bind_e (webhook_discount price_rule) (\<lambda>d.
        Inr (rule_id,
            \<lparr>retailer = (case promo_retailer cfg of None \<Rightarrow> store_id cfg | Some r \<Rightarrow> r),
             stores = [store_id cfg],
             promo_id = py_str rule_id,
             family = EASY,
             layer = ''1'',
             date_start = start,
             date_end = end,
             promo_availability = Availability_ALL,
             special_promo_info = None,
             discount_value_on = DiscountOn_FP,
             max_application_limit = (if pr_once_per_customer price_rule then 1 else 65535),
             promo_discount_type_strategy =
               (if pr_allocation_method price_rule = Some ''across'' then ALL_ITEMS
                else if pr_allocation_method price_rule = Some ''each'' then EACH_ITEM
                else ALL_ITEMS),
             discounted_group_item_selection_criteria = LEAST_EXPENSIVE,
             promo_evaluate_criteria = PRIORITY,
             is_active = is_promotion_active start end current_date,
             title = (case pr_title price_rule of None \<Rightarrow> [] | Some t \<Rightarrow> t),
             description = (case pr_title price_rule of None \<Rightarrow> [] | Some t \<Rightarrow> t),
             discount_type = df_type d,
             discount_value = df_value d,
             evaluate_priority = df_priority d,
             groups = []\<rparr>))))))
      of
        Inl e \<Rightarrow> raised e net
      | Inr (rule_id, promo) \<Rightarrow>
          (let resolved = resolve_entitled_skus price_rule net
           in case result resolved of
                Pending \<Rightarrow>
                  \<lparr>result = Pending, requested = requested resolved, unread = unread resolved\<rparr>
              | Raised e \<Rightarrow>
                  \<lparr>result = Raised e, requested = requested resolved, unread = unread resolved\<rparr>
              | Returned resolved_skus \<Rightarrow>
                  \<lparr>result = Returned
                     (promo\<lparr>groups := build_promo_groups rule_id resolved_skus 1\<rparr>),
                   requested = requested resolved, unread = unread resolved\<rparr>))"

subsubsection \<open>The batch builder\<close>

text \<open>
  \<open>parse_easy_level_promotion\<close> adds the promotion to the accumulator
  \<open>promotion_dict\<close>, a dictionary from \<open>promo_id\<close> to promotion. The model covers the
  default \<open>test=False\<close>. \<open>str.lower()\<close> is given for the code points below 256.
\<close>

definition py_lower :: "string \<Rightarrow> string" where
  "py_lower s =
     map (\<lambda>c. let n = (of_char c :: nat)
              in if (65 \<le> n \<and> n \<le> 90) \<or> (192 \<le> n \<and> n \<le> 222 \<and> n \<noteq> 215)
                 then char_of (n + 32) else c) s"

text \<open>The node loop of the batch builder returns from the function at an empty barcode.\<close>

fun batch_nodes :: "sku list \<Rightarrow> node list option" where
  "batch_nodes [] = Some []"
| "batch_nodes (line_item # skus) =
     (case line_item of
        None \<Rightarrow> None
      | Some item_id \<Rightarrow>
          (if item_id = [] then None
           else (case batch_nodes skus of
                   None \<Rightarrow> None
                 | Some ns \<Rightarrow> Some (\<lparr>node_type = ITEM, node_id = item_id\<rparr> # ns))))"

definition batch_discount :: "price_rule \<Rightarrow> py_error + discount_fields" where
  "batch_discount original_promotion =
     bind_e (subscript (pr_value original_promotion)) (\<lambda>v.
     bind_e (py_float v) (\<lambda>f.
     bind_e (subscript (pr_value_type original_promotion)) (\<lambda>value_type.
     bind_e (if value_type = ''fixed_amount'' then Inr VALUE_OFF
             else if value_type = ''percentage'' then Inr PERCENT_OFF
             else Inl (Exception_msg ''Easy Promo: Unknown discount method'')) (\<lambda>dtype.
     bind_e (py_decimal (PyFloat (abs_float f))) (\<lambda>d.
     bind_e (get_rounded_value d) (\<lambda>dv.
     bind_e (compute_evaluate_priority dtype (PyDecimal dv)) (\<lambda>prio.
     Inr \<lparr>df_type = dtype, df_value = dv, df_priority = prio\<rparr>)))))))"

definition batch_resolve :: "price_rule \<Rightarrow> http_outcome list \<Rightarrow> (sku list) exec" where
  "batch_resolve original_promotion net =
     (if pr_entitled_product_ids original_promotion \<noteq> [] then
        get_products_sku (pr_entitled_product_ids original_promotion) net
      else if pr_entitled_variant_ids original_promotion \<noteq> [] then
        get_sku_from_variants (pr_entitled_variant_ids original_promotion) net
      else if pr_entitled_collection_ids original_promotion \<noteq> [] then
        get_products_from_collections (pr_entitled_collection_ids original_promotion) net
      else raised (Exception_msg ''Easy Promo: entitled item not found'') net)"

definition parse_easy_level_promotion ::
  "(string \<rightharpoonup> promotion) \<Rightarrow> price_rule \<Rightarrow> string \<Rightarrow> string \<Rightarrow> string
     \<Rightarrow> (string \<Rightarrow> bool) option \<Rightarrow> http_outcome list \<Rightarrow> (string \<rightharpoonup> promotion) exec" where
  "parse_easy_level_promotion promotion_dict original_promotion store region_retailer region
       coupon_check_fn net =
     (case
        bind_e (subscript (pr_starts_at original_promotion)) (\<lambda>starts_at.
        bind_e (get_start_datetime starts_at) (\<lambda>start.
        bind_e (get_end_datetime (pr_ends_at original_promotion)) (\<lambda>end.
        bind_e (if pr_allocation_method original_promotion = Some ''across'' then Inr ALL_ITEMS
                else if pr_allocation_method original_promotion = Some ''each'' then Inr EACH_ITEM
                else Inl (Exception_msg ''Easy Promo: allocation method not found'')) (\<lambda>strategy.
        bind_e (subscript (pr_title original_promotion)) (\<lambda>t.
        bind_e (batch_discount original_promotion) (\<lambda>d.
        bind_e (subscript (pr_id original_promotion)) (\<lambda>rule_id.
        let special = (case coupon_check_fn of None \<Rightarrow> False | Some check \<Rightarrow> check t)
        in Inr (rule_id,
             \<lparr>retailer = region_retailer,
              stores = [store],
              promo_id = py_str rule_id,
              family = EASY,
              layer = ''1'',
              date_start = start,
              date_end = end,
              promo_availability = (if special then Availability_SPECIAL else Availability_ALL),
              special_promo_info =
                (if special then Some (''b-'' @ py_lower region @ ''-'' @ py_lower t, t)
                 else None),
              discount_value_on = DiscountOn_FP,
              max_application_limit =
                (if pr_once_per_customer original_promotion then 1 else 65535),
              promo_discount_type_strategy = strategy,
              discounted_group_item_selection_criteria = LEAST_EXPENSIVE,
              promo_evaluate_criteria = PRIORITY,
              is_active = True,
              title = t,
              description = t,
              discount_type = df_type d,
              discount_value = df_value d,
              evaluate_priority = df_priority d,
              groups = []\<rparr>))))))))
      of
        Inl e \<Rightarrow> raised e net
      | Inr (rule_id, promo) \<Rightarrow>
          (let resolved = batch_resolve original_promotion net
           in case result resolved of
                Pending \<Rightarrow>
                  \<lparr>result = Pending, requested = requested resolved, unread = unread resolved\<rparr>
              | Raised e \<Rightarrow>
                  \<lparr>result = Raised e, requested = requested resolved, unread = unread resolved\<rparr>
              | Returned skus \<Rightarrow>
                  (case batch_nodes skus of
                     None \<Rightarrow>
                       \<lparr>result = Returned promotion_dict, requested = requested resolved,
                        unread = unread resolved\<rparr>
                   | Some ns \<Rightarrow>
                       \<lparr>result = Returned
                          (promotion_dict(promo_id promo \<mapsto>
                             promo\<lparr>groups :=
                               [\<lparr>group_name = py_str rule_id, qty_or_value_min = 1,
                                 qty_or_value_max = None, nodes = ns\<rparr>]\<rparr>)),
                        requested = requested resolved, unread = unread resolved\<rparr>)))"

subsection \<open>Retry classification (tasks.py)\<close>

text \<open>
  The exception classes that reach the retry predicate. \<open>tasks.py\<close> imports
  \<open>ConnectionError\<close> and \<open>Timeout\<close> from \<open>requests.exceptions\<close>, so these
  names denote the classes of the requests library; all of them derive from
  \<open>RequestException\<close>, which derives from \<open>IOError\<close>, an alias of \<open>OSError\<close>.
\<close>

datatype exc_class =
    Exception_cls
  | ValueError_cls
  | KeyError_cls
  | TypeError_cls
  | OSError_cls
  | FileNotFoundError_cls
  | RequestException_cls
  | Requests_ConnectionError_cls
  | Requests_Timeout_cls
  | Requests_ConnectTimeout_cls
  | Requests_ReadTimeout_cls
  | Requests_HTTPError_cls

text \<open>The classes an instance of the given class is an instance of (its linearised bases).\<close>

fun class_mro :: "exc_class \<Rightarrow> exc_class list" where
  "class_mro Exception_cls = [Exception_cls]"
| "class_mro ValueError_cls = [ValueError_cls, Exception_cls]"
| "class_mro KeyError_cls = [KeyError_cls, Exception_cls]"
| "class_mro TypeError_cls = [TypeError_cls, Exception_cls]"
| "class_mro OSError_cls = [OSError_cls, Exception_cls]"
| "class_mro FileNotFoundError_cls = [FileNotFoundError_cls, OSError_cls, Exception_cls]"
| "class_mro RequestException_cls = [RequestException_cls, OSError_cls, Exception_cls]"
| "class_mro Requests_ConnectionError_cls =
     [Requests_ConnectionError_cls, RequestException_cls, OSError_cls, Exception_cls]"
| "class_mro Requests_Timeout_cls =
     [Requests_Timeout_cls, RequestException_cls, OSError_cls, Exception_cls]"
| "class_mro Requests_ConnectTimeout_cls =
     [Requests_ConnectTimeout_cls, Requests_ConnectionError_cls, Requests_Timeout_cls,
      RequestException_cls, OSError_cls, Exception_cls]"
| "class_mro Requests_ReadTimeout_cls =
     [Requests_ReadTimeout_cls, Requests_Timeout_cls, RequestException_cls, OSError_cls,
      Exception_cls]"
| "class_mro Requests_HTTPError_cls =
     [Requests_HTTPError_cls, RequestException_cls, OSError_cls, Exception_cls]"

text \<open>
  The \<open>response\<close> attribute of an exception object: absent, \<open>None\<close>, or a response
  with its \<open>status_code\<close>.
\<close>

datatype response_attr = No_attr | Attr_None | Attr_response int

record py_exception =
  exc_cls :: exc_class
  exc_response :: response_attr

definition isinstance :: "py_exception \<Rightarrow> exc_class list \<Rightarrow> bool" where
  "isinstance e classes = list_ex (\<lambda>c. c \<in> set (class_mro (exc_cls e))) classes"

definition should_retry :: "nat \<Rightarrow> py_exception \<Rightarrow> bool" where
  "should_retry retries_so_far exception =
     (if isinstance exception [Requests_ConnectionError_cls, Requests_Timeout_cls, OSError_cls]
      then True
      else (case exc_response exception of
              Attr_response status_code \<Rightarrow>
                (if status_code = 429 \<or> (500 \<le> status_code \<and> status_code < 600)
                 then True else False)
            | _ \<Rightarrow> False))"

section \<open>Properties\<close>

subsection \<open>Identifier round trip\<close>

lemma py_split_nonempty: "py_split sep s \<noteq> []"
  by (induction s) (auto split: list.splits)

lemma py_split_no_sep: "sep \<notin> set s \<Longrightarrow> py_split sep s = [s]"
  by (induction s) (auto split: list.splits)

lemma py_split_append:
  "\<exists>ps. ps \<noteq> [] \<and> py_split sep (xs @ sep # ys) = ps @ py_split sep ys"
proof (induction xs)
  case Nil
  have "py_split sep ([] @ sep # ys) = [[]] @ py_split sep ys" by simp
  then show ?case by blast
next
  case (Cons x xs)
  then obtain p ps where ps: "py_split sep (xs @ sep # ys) = (p # ps) @ py_split sep ys"
    by (metis list.exhaust)
  show ?case
  proof (cases "x = sep")
    case True
    then have "py_split sep ((x # xs) @ sep # ys) = ([] # p # ps) @ py_split sep ys"
      using ps by simp
    then show ?thesis by blast
  next
    case False
    then have "py_split sep ((x # xs) @ sep # ys) = ((x # p) # ps) @ py_split sep ys"
      using ps by simp
    then show ?thesis by blast
  qed
qed

lemma last_py_split_append:
  "sep \<notin> set ys \<Longrightarrow> last (py_split sep (xs @ sep # ys)) = ys"
  using py_split_append [of sep xs ys] by (auto simp: py_split_no_sep)

text \<open>
  C10. For every resource type \<open>t\<close> and identifier \<open>n\<close> whose string form has no
  slash, extracting the identifier of the constructed GID gives back \<open>str(n)\<close>.
\<close>

theorem extract_id_to_shopify_gid:
  "CHR ''/'' \<notin> set (py_str n) \<Longrightarrow> extract_id (to_shopify_gid t n) = py_str n"
proof -
  assume h: "CHR ''/'' \<notin> set (py_str n)"
  define pre where "pre = ''gid://shopify/'' @ py_str t"
  have "to_shopify_gid t n = pre @ CHR ''/'' # py_str n"
    by (simp add: to_shopify_gid_def pre_def)
  then have "extract_id (to_shopify_gid t n) = last (py_split CHR ''/'' (pre @ CHR ''/'' # py_str n))"
    by (simp only: extract_id_def Let_def)
  then show ?thesis
    by (simp only: last_py_split_append [OF h])
qed

theorem extract_id_to_shopify_gid_witness:
  "CHR ''/'' \<notin> set (py_str (IdStr ''9154924904679'')) \<and>
   extract_id (to_shopify_gid (IdStr ''Product'') (IdStr ''9154924904679'')) = ''9154924904679''"
proof -
  have h: "CHR ''/'' \<notin> set (py_str (IdStr ''9154924904679''))" by simp
  show ?thesis
    using h extract_id_to_shopify_gid [OF h, of "IdStr ''Product''"] by simp
qed

subsection \<open>The active window\<close>










subsection \<open>Evaluation priority\<close>


























subsection \<open>Retry classification\<close>

text \<open>
  C9. The claim has HTTP 4xx errors other than 429 classified as permanent. An
  \<open>HTTPError\<close> of the requests library (what \<open>raise_for_status\<close> raises) for
  status 404 is an instance of \<open>OSError\<close>, so the predicate answers \<open>True\<close> for it, as
  it does for any other \<open>OSError\<close> that is neither a connection failure nor a timeout.
\<close>

theorem should_retry_http_404:
  "should_retry 0 \<lparr>exc_cls = Requests_HTTPError_cls, exc_response = Attr_response 404\<rparr> = True
   \<and> should_retry 0 \<lparr>exc_cls = FileNotFoundError_cls, exc_response = No_attr\<rparr> = True
   \<and> should_retry 0 \<lparr>exc_cls = ValueError_cls, exc_response = No_attr\<rparr> = False"
  by (simp add: should_retry_def isinstance_def)

lemma should_retry_iff:
  "should_retry n e \<longleftrightarrow>
     OSError_cls \<in> set (class_mro (exc_cls e))
     \<or> (\<exists>c. exc_response e = Attr_response c \<and> (c = 429 \<or> (500 \<le> c \<and> c < 600)))"
  by (cases "exc_cls e"; cases "exc_response e")
     (auto simp: should_retry_def isinstance_def)

end
